theory Spec2Isabelle
  imports Complex_Main
begin

section \<open>Python values shared by the modules\<close>

text \<open>
  Strings are 8-bit character lists. \<open>str.lower\<close> and \<open>str.strip\<close> are modelled on
  the ASCII range: letters A to Z are lowered, every other character is kept, and the
  white space removed by \<open>strip\<close> is the ASCII white space of Python (code points 9 to 13,
  28 to 32).
\<close>

definition lower_char :: "char \<Rightarrow> char" where
  "lower_char c =
     (let n = (of_char c :: nat) in if 65 \<le> n \<and> n \<le> 90 then char_of (n + 32) else c)"

definition lower :: "string \<Rightarrow> string" where
  "lower s = map lower_char s"

definition is_space :: "char \<Rightarrow> bool" where
  "is_space c = (let n = (of_char c :: nat) in (9 \<le> n \<and> n \<le> 13) \<or> (28 \<le> n \<and> n \<le> 32))"

definition strip :: "string \<Rightarrow> string" where
  "strip s = rev (dropWhile is_space (rev (dropWhile is_space s)))"

text \<open>
  An f-string is kept as its parts: literal text, an interpolated string and an
  interpolated list of strings.
\<close>

datatype piece = Lit string | StrArg string | ListArg "string list"

text \<open>
  Exceptions. \<open>ValueError\<close> carries its message; \<open>EOFError\<close> is what reading a line
  from an exhausted input raises; \<open>OtherError\<close> stands for any other exception class,
  by name.
\<close>

datatype exn = ValueError "piece list" | EOFError | OtherError string

text \<open>
  Python floats. A float is a finite number, an infinity or NaN. A finite float is
  modelled as the real number it denotes and a decimal literal as the decimal it spells:
  rounding and overflow are not represented. The comparisons are those of IEEE 754: an
  infinity compares as the extended reals do, and every comparison with NaN is false.
\<close>

datatype pyfloat = Finite real | PosInf | NegInf | NaN

fun float_le :: "pyfloat \<Rightarrow> pyfloat \<Rightarrow> bool" where
  "float_le NaN y = False"
| "float_le x NaN = False"
| "float_le (Finite a) (Finite b) = (a \<le> b)"
| "float_le NegInf y = True"
| "float_le x PosInf = True"
| "float_le x y = False"

fun float_lt :: "pyfloat \<Rightarrow> pyfloat \<Rightarrow> bool" where
  "float_lt NaN y = False"
| "float_lt x NaN = False"
| "float_lt (Finite a) (Finite b) = (a < b)"
| "float_lt PosInf y = False"
| "float_lt x NegInf = False"
| "float_lt x y = True"

definition float_gt :: "pyfloat \<Rightarrow> pyfloat \<Rightarrow> bool" where
  "float_gt x y = float_lt y x"

fun float_neg :: "pyfloat \<Rightarrow> pyfloat" where
  "float_neg (Finite a) = Finite (- a)"
| "float_neg PosInf = NegInf"
| "float_neg NegInf = PosInf"
| "float_neg NaN = NaN"

fun float_add :: "pyfloat \<Rightarrow> pyfloat \<Rightarrow> pyfloat" where
  "float_add NaN y = NaN"
| "float_add x NaN = NaN"
| "float_add (Finite a) (Finite b) = Finite (a + b)"
| "float_add PosInf NegInf = NaN"
| "float_add NegInf PosInf = NaN"
| "float_add PosInf y = PosInf"
| "float_add x PosInf = PosInf"
| "float_add NegInf y = NegInf"
| "float_add x NegInf = NegInf"

definition float_sub :: "pyfloat \<Rightarrow> pyfloat \<Rightarrow> pyfloat" where
  "float_sub x y = float_add x (float_neg y)"

fun float_abs :: "pyfloat \<Rightarrow> pyfloat" where
  "float_abs (Finite a) = Finite \<bar>a\<bar>"
| "float_abs PosInf = PosInf"
| "float_abs NegInf = PosInf"
| "float_abs NaN = NaN"

section \<open>src/utils/validation.py\<close>

text \<open>
  \<open>validate_inputs\<close>. The key lists of \<open>STATE_CLASSES\<close> and \<open>NOISE_CLASSES\<close> are
  defined outside the files at hand and are the first two parameters. \<open>np_pi\<close> is
  numpy's \<open>pi\<close>, the double nearest to the circle constant, as the rational number it
  is. An argument that is \<open>None\<close> in Python is \<open>None\<close> here. The function returns
  nothing: \<open>Inr ()\<close> is the normal return and \<open>Inl\<close> the exception raised. The checks
  are in the order of the source, each comparison written as the source writes it
  (\<open>not (0 <= x <= 1)\<close> for the rates and probabilities, \<open>t1 <= 0 or t2 <= 0 or t2 > t1\<close>
  for the relaxation times). The literal list in the simulation-mode message is written
  as the list it spells out, and the Greek letter of the angle message as its two UTF-8
  bytes.
\<close>

definition np_pi :: real where
  "np_pi = 884279719003555 / 281474976710656"

definition validate_inputs ::
  "string list \<Rightarrow> string list \<Rightarrow> int \<Rightarrow> string \<Rightarrow> string \<Rightarrow> string \<Rightarrow>
   pyfloat option \<Rightarrow> pyfloat option \<Rightarrow> pyfloat option \<Rightarrow> pyfloat option \<Rightarrow>
   pyfloat option \<Rightarrow> pyfloat option \<Rightarrow> exn + unit" where
  "validate_inputs valid_states valid_noises num_qubits state_type noise_type sim_mode
      angle error_rate z_prob i_prob t1 t2 =
    (if num_qubits < 1 then
       Inl (ValueError [Lit ''Number of qubits must be at least 1.''])
     else if state_type \<notin> set valid_states then
       Inl (ValueError [Lit ''Invalid state type: '', StrArg state_type,
                        Lit ''. Choose from '', ListArg valid_states])
     else if noise_type \<notin> set valid_noises then
       Inl (ValueError [Lit ''Invalid noise type: '', StrArg noise_type,
                        Lit ''. Choose from '', ListArg valid_noises])
     else if sim_mode \<notin> set [''qasm'', ''density''] then
       Inl (ValueError [Lit ''Invalid simulation mode: '', StrArg sim_mode,
                        Lit ''. Choose from '', ListArg [''qasm'', ''density'']])
     else if state_type = ''CLUSTER'' \<and> angle \<noteq> None
             \<and> \<not> (float_le (Finite 0) (the angle)
                    \<and> float_le (the angle) (Finite (2 * np_pi))) then
       Inl (ValueError [Lit ''Angle for CLUSTER state must be between 0 and 2'',
                        Lit [CHR 0xCF, CHR 0x80], Lit '' radians.''])
     else if error_rate \<noteq> None
             \<and> \<not> (float_le (Finite 0) (the error_rate)
                    \<and> float_le (the error_rate) (Finite 1)) then
       Inl (ValueError [Lit ''Error rate must be between 0 and 1.''])
     else if noise_type = ''PHASE_FLIP'' \<and> (z_prob \<noteq> None \<or> i_prob \<noteq> None)
             \<and> (z_prob = None \<or> i_prob = None) then
       Inl (ValueError [Lit ''Both z_prob and i_prob must be provided for PHASE_FLIP noise.''])
     else if noise_type = ''PHASE_FLIP'' \<and> (z_prob \<noteq> None \<or> i_prob \<noteq> None)
             \<and> \<not> (float_le (Finite 0) (the z_prob) \<and> float_le (the z_prob) (Finite 1)
                    \<and> float_le (Finite 0) (the i_prob) \<and> float_le (the i_prob) (Finite 1)
                    \<and> float_lt (float_abs (float_sub (float_add (the z_prob) (the i_prob))
                                                       (Finite 1)))
                                (Finite (1 / 10 ^ 10))) then
       Inl (ValueError
         [Lit ''Z and I probabilities for PHASE_FLIP must sum to 1 and be between 0 and 1.''])
     else if noise_type = ''THERMAL_RELAXATION'' \<and> (t1 \<noteq> None \<or> t2 \<noteq> None)
             \<and> (t1 = None \<or> t2 = None) then
       Inl (ValueError [Lit ''Both t1 and t2 must be provided for THERMAL_RELAXATION noise.''])
     else if noise_type = ''THERMAL_RELAXATION'' \<and> (t1 \<noteq> None \<or> t2 \<noteq> None)
             \<and> (float_le (the t1) (Finite 0) \<or> float_le (the t2) (Finite 0)
                  \<or> float_gt (the t2) (the t1)) then
       Inl (ValueError
         [Lit ''T1 and T2 must be positive, with T2 <= T1 for realistic relaxation.''])
     else Inr ())"

text \<open>
  \<open>InputValidator.validate_choice\<close>. \<open>valid_options\<close> is an optional list; Python's
  \<open>not valid_options\<close> holds for \<open>None\<close> and for the empty list.
\<close>

definition validate_choice :: "string \<Rightarrow> string list option \<Rightarrow> bool \<Rightarrow> bool" where
  "validate_choice user_input valid_options case_sensitive =
    (case valid_options of
       None \<Rightarrow> True
     | Some opts \<Rightarrow>
         if opts = [] then True
         else if \<not> case_sensitive then lower user_input \<in> set (map lower opts)
         else user_input \<in> set opts)"

text \<open>
  \<open>InputValidator.validate_numeric\<close>. \<open>expected_type\<close> is the constructor handed in by
  the caller (\<open>int\<close> or \<open>float\<close>): applied to a string it yields a value or raises. Only
  \<open>ValueError\<close> is caught; any other exception leaves the function.
\<close>

definition validate_numeric :: "string \<Rightarrow> (string \<Rightarrow> exn + 'a) \<Rightarrow> exn + 'a option" where
  "validate_numeric user_input expected_type =
    (case expected_type user_input of
       Inr v \<Rightarrow> Inr (Some v)
     | Inl (ValueError m) \<Rightarrow> Inr None
     | Inl e \<Rightarrow> Inl e)"

definition validate_yes_no :: "string \<Rightarrow> bool" where
  "validate_yes_no user_input = (lower user_input \<in> set [''y'', ''yes'', ''t'', ''true''])"

text \<open>
  The decimal core of Python's \<open>int\<close> on a string: a non-empty run of ASCII digits is
  its value, anything else raises \<open>ValueError\<close>. (Signs, underscores and surrounding
  white space, which \<open>int\<close> also accepts, are left out; the functions below take the
  constructor as a parameter and do not depend on this instance.)
\<close>

definition is_digit :: "char \<Rightarrow> bool" where
  "is_digit c = (let n = (of_char c :: nat) in 48 \<le> n \<and> n \<le> 57)"

definition int_decimal :: "string \<Rightarrow> exn + int" where
  "int_decimal s =
    (if s \<noteq> [] \<and> list_all is_digit s
     then Inr (foldl (\<lambda>acc c. 10 * acc + int (of_char c - 48)) 0 s)
     else Inl (ValueError [Lit ''invalid literal for int() with base 10: '', StrArg s]))"

section \<open>src/noise_models/amplitude_damping.py\<close>

text \<open>
  A structured record of one noise application: the family, the gates named and the
  extra information, a dictionary from keys to a text or a number.
\<close>

datatype info = Text string | Rate real

record noise_record =
  family :: string
  gates :: "string list"
  extra_info :: "(string \<times> info) list"

text \<open>
  Modelled from the spec: \<open>BaseNoise.log_noise_application\<close> is inherited from a base
  class that is not among the files at hand. Section 4.3 of the specification has every
  \<open>apply\<close> call emit a structured record (family, targeted gates, parameters used) whose
  transport is an external collaborator; the model appends that record to the log and
  does not fail.
\<close>

definition log_noise_application ::
  "string \<Rightarrow> string list \<Rightarrow> (string \<times> info) list \<Rightarrow> noise_record list \<Rightarrow> noise_record list" where
  "log_noise_application noise_type gs extra logged =
     logged @ [\<lparr>family = noise_type, gates = gs, extra_info = extra\<rparr>]"

text \<open>
  \<open>AmplitudeDampingNoise.apply\<close>. The two library calls are parameters:
  \<open>amplitude_damping_error\<close> builds a channel from the rate or raises, and
  \<open>add_all_qubit_quantum_error\<close> attaches a channel to the named gates of a noise model
  or raises. \<open>error_rate\<close> is the attribute \<open>self.error_rate\<close>. The noise model and the
  log are the state the method changes; \<open>qubits_for_error\<close> is ignored by the source.
\<close>

definition AmplitudeDampingNoise_apply ::
  "(real \<Rightarrow> exn + 'q) \<Rightarrow> ('m \<Rightarrow> 'q \<Rightarrow> string list \<Rightarrow> exn + 'm) \<Rightarrow> real \<Rightarrow>
   'm \<Rightarrow> string list \<Rightarrow> int option \<Rightarrow> noise_record list \<Rightarrow> exn + ('m \<times> noise_record list)" where
  "AmplitudeDampingNoise_apply amplitude_damping_error add_all_qubit_quantum_error error_rate
      noise_model gate_list qubits_for_error logged =
    (let valid_gates = filter (\<lambda>g. g \<in> set [''id'', ''u1'', ''u2'', ''u3'']) gate_list in
     if valid_gates = [] then
       Inr (noise_model,
            log_noise_application ''AMPLITUDE_DAMPING'' gate_list
              [(''warning'', Text ''No valid 1-qubit gates found, skipping'')] logged)
     else
       case amplitude_damping_error error_rate of
         Inl e \<Rightarrow> Inl e
       | Inr noise \<Rightarrow>
           (case add_all_qubit_quantum_error noise_model noise valid_gates of
              Inl e \<Rightarrow> Inl e
            | Inr noise_model' \<Rightarrow>
                Inr (noise_model',
                     log_noise_application ''AMPLITUDE_DAMPING'' valid_gates
                       [(''error_rate'', Rate error_rate)] logged)))"

text \<open>
  A concrete library for running the method: a channel is its rate, rejected outside
  the unit interval, and a noise model is the list of (gate, channel) attachments.
\<close>

definition damping_channel :: "real \<Rightarrow> exn + real" where
  "damping_channel r = (if 0 \<le> r \<and> r \<le> 1 then Inr r else Inl (OtherError ''NoiseError''))"

definition attach_all :: "(string \<times> real) list \<Rightarrow> real \<Rightarrow> string list \<Rightarrow> exn + (string \<times> real) list" where
  "attach_all model channel gs = Inr (model @ map (\<lambda>g. (g, channel)) gs)"

section \<open>src/main.py: prompting\<close>

text \<open>
  The console. What the user does at a prompt is an event: a line typed, or Ctrl+C
  (\<open>KeyboardInterrupt\<close>). The events still to come are \<open>stdin\<close>; reading from an
  exhausted input raises \<open>EOFError\<close>. What the program shows is recorded in \<open>stdout\<close> by
  the key of the message in the \<open>MESSAGES\<close> table (the table and its texts are outside
  the files at hand): \<open>Prompt k\<close> for a prompt displayed by \<open>console.input\<close>,
  \<open>Message k\<close> for \<open>print_message(k, ...)\<close>.
\<close>

datatype event = Line string | Interrupt

datatype out = Prompt string | Message string

record console =
  stdin :: "event list"
  stdout :: "out list"

definition print_message :: "string \<Rightarrow> console \<Rightarrow> console" where
  "print_message key con = con\<lparr>stdout := stdout con @ [Message key]\<rparr>"

text \<open>
  \<open>get_input\<close>: the \<open>while True\<close> loop consumes one event per round. An empty list of
  options stands for both \<open>None\<close> and \<open>[]\<close>, which the source tells apart only when
  it formats the prompt.
\<close>

fun get_input_loop ::
  "string \<Rightarrow> string \<Rightarrow> string list \<Rightarrow> event list \<Rightarrow> out list \<Rightarrow> exn + (string \<times> console)" where
  "get_input_loop prompt_key dflt valid_options [] shown = Inl EOFError"
| "get_input_loop prompt_key dflt valid_options (Interrupt # rest) shown =
     Inr (lower dflt,
          \<lparr>stdin = rest, stdout = shown @ [Prompt prompt_key, Message ''operation_cancelled'']\<rparr>)"
| "get_input_loop prompt_key dflt valid_options (Line l # rest) shown =
     (let user_input = (if lower (strip l) = [] then lower dflt else lower (strip l)) in
      if valid_options = [] \<or> user_input \<in> set (map lower valid_options)
      then Inr (user_input, \<lparr>stdin = rest, stdout = shown @ [Prompt prompt_key]\<rparr>)
      else get_input_loop prompt_key dflt valid_options rest
             (shown @ [Prompt prompt_key, Message ''invalid_input'']))"

definition get_input :: "string \<Rightarrow> string \<Rightarrow> string list \<Rightarrow> console \<Rightarrow> exn + (string \<times> console)" where
  "get_input prompt_key dflt valid_options con =
     get_input_loop prompt_key dflt valid_options (stdin con) (stdout con)"

text \<open>
  \<open>get_numeric_input\<close> returns the converted number, or, when the conversion raises
  \<open>ValueError\<close>, whatever \<open>collect_parameters(interactive=True)\<close> returns: a parameter
  dictionary. \<open>collect_parameters\<close> calls back into the functions below and rests on
  \<open>apply_defaults\<close> and \<open>validate_parameters\<close>, which are outside the files at hand;
  it is the parameter \<open>collect_parameters\<close>, a computation on the console that yields
  a dictionary of type \<open>'d\<close> or raises.
\<close>

datatype ('n, 'd) numeric = Number 'n | Collected 'd

definition get_numeric_input ::
  "string \<Rightarrow> string \<Rightarrow> (string \<Rightarrow> exn + 'n) \<Rightarrow> (console \<Rightarrow> exn + ('d \<times> console)) \<Rightarrow>
   console \<Rightarrow> exn + (('n, 'd) numeric \<times> console)" where
  "get_numeric_input prompt_key dflt expected_type collect_parameters con =
    (case get_input prompt_key dflt [] con of
       Inl e \<Rightarrow> Inl e
     | Inr (v, con1) \<Rightarrow>
         (case expected_type v of
            Inr n \<Rightarrow> Inr (Number n, con1)
          | Inl (ValueError m) \<Rightarrow>
              (case collect_parameters (print_message ''invalid_input'' con1) of
                 Inl e \<Rightarrow> Inl e
               | Inr (d, con2) \<Rightarrow> Inr (Collected d, con2))
          | Inl e \<Rightarrow> Inl e))"

section \<open>src/main.py: the parameter dictionary and the compatibility checks\<close>

text \<open>
  The parameter dictionary \<open>args\<close>. The keys that \<open>validate_and_prompt\<close> and
  \<open>switch_to_plot\<close> read or write are the fields; the other keys (\<open>shots\<close>,
  \<open>save_plot\<close>, \<open>error_rate\<close>, \<open>z_prob\<close>, \<open>i_prob\<close>, \<open>t1\<close>, \<open>t2\<close>,
  \<open>custom_params\<close>) are neither read nor written there and live in the extension of
  the record. \<open>min_occurrences\<close> holds what \<open>get_numeric_input\<close> returned.
\<close>

record 'd args =
  num_qubits :: int
  state_type :: string
  noise_type :: string
  noise_enabled :: bool
  sim_mode :: string
  visualization_type :: string
  min_occurrences :: "(int, 'd) numeric"
  show_real :: bool
  show_imag :: bool

text \<open>
  \<open>switch_to_plot\<close>. \<open>py_int\<close> is Python's \<open>int\<close>, the default \<open>expected_type\<close> of
  \<open>get_numeric_input\<close>.
\<close>

definition switch_to_plot ::
  "(string \<Rightarrow> exn + int) \<Rightarrow> (console \<Rightarrow> exn + ('d \<times> console)) \<Rightarrow>
   ('d, 'z) args_scheme \<Rightarrow> console \<Rightarrow> exn + (('d, 'z) args_scheme \<times> console)" where
  "switch_to_plot py_int collect_parameters args con =
    (let args1 = args\<lparr>visualization_type := ''plot''\<rparr> in
     if sim_mode args1 = ''qasm'' then
       (case get_numeric_input ''min_occurrences_prompt'' ''0'' py_int collect_parameters con of
          Inl e \<Rightarrow> Inl e
        | Inr (n, con1) \<Rightarrow> Inr (args1\<lparr>min_occurrences := n\<rparr>, con1))
     else
       (case get_input ''real_imag_prompt'' ''a'' [''r'', ''i'', ''a''] con of
          Inl e \<Rightarrow> Inl e
        | Inr (real_imag, con1) \<Rightarrow>
            Inr (args1\<lparr>show_real := (real_imag = ''r''), show_imag := (real_imag = ''i'')\<rparr>,
                 con1)))"

text \<open>
  The block that asks for a replacement noise type; the source repeats it verbatim in
  the \<open>switch\<close> branch of three checks (lines 425 to 447, 464 to 486, 504 to 526).
\<close>

definition switch_noise_type ::
  "('d, 'z) args_scheme \<Rightarrow> console \<Rightarrow> exn + (('d, 'z) args_scheme \<times> console)" where
  "switch_noise_type args con =
    (case get_input ''noise_type_prompt'' ''depolarizing''
            [''d'', ''p'', ''t'', ''depolarizing'', ''phase_flip'', ''thermal_relaxation'']
            (print_message ''suggested_multi_qubit_noise_types'' con) of
       Inl e \<Rightarrow> Inl e
     | Inr (new_noise, con1) \<Rightarrow>
         Inr (args\<lparr>noise_type :=
                     (if new_noise \<in> set [''d'', ''depolarizing''] then ''DEPOLARIZING''
                      else if new_noise \<in> set [''p'', ''phase_flip''] then ''PHASE_FLIP''
                      else ''THERMAL_RELAXATION'')\<rparr>,
              print_message ''switched_noise_type'' con1))"

text \<open>
  What a check hands on: \<open>Continue a\<close> when control goes on with the dictionary \<open>a\<close>,
  \<open>Restart d\<close> when the function returned \<open>collect_parameters(interactive=True)\<close>,
  which yielded \<open>d\<close>.
\<close>

datatype ('a, 'd) outcome = Continue 'a | Restart 'd

text \<open>
  The blocks of \<open>validate_and_prompt\<close>, in the order of the source.
  \<open>single_qubit_noise_types\<close> is the constant \<open>SINGLE_QUBIT_NOISE_TYPES\<close>, defined
  outside the files at hand.

  Check 1 (lines 416 to 450): single-qubit noise with more than one qubit.
\<close>

definition check_single_qubit_noise ::
  "string list \<Rightarrow> (console \<Rightarrow> exn + ('d \<times> console)) \<Rightarrow>
   ('d, 'z) args_scheme \<Rightarrow> console \<Rightarrow> exn + ((('d, 'z) args_scheme, 'd) outcome \<times> console)" where
  "check_single_qubit_noise single_qubit_noise_types collect_parameters args con =
    (if noise_type args \<in> set single_qubit_noise_types \<and> num_qubits args > 1 then
       (case get_input ''single_qubit_noise_prompt'' ''p'' [''p'', ''switch'', ''c'']
               (print_message ''single_qubit_noise_warning'' con) of
          Inl e \<Rightarrow> Inl e
        | Inr (choice, con1) \<Rightarrow>
            if choice = ''switch'' then
              (case switch_noise_type args con1 of
                 Inl e \<Rightarrow> Inl e
               | Inr (args1, con2) \<Rightarrow> Inr (Continue args1, con2))
            else if choice = ''c'' then
              (case collect_parameters (print_message ''config_cancelled'' con1) of
                 Inl e \<Rightarrow> Inl e
               | Inr (d, con2) \<Rightarrow> Inr (Restart d, con2))
            else Inr (Continue args, con1))
     else Inr (Continue args, con))"

text \<open>Check 2 (lines 452 to 489): hypergraph view, single-qubit noise, more than one qubit.\<close>

definition check_hypergraph_single_qubit ::
  "string list \<Rightarrow> (string \<Rightarrow> exn + int) \<Rightarrow> (console \<Rightarrow> exn + ('d \<times> console)) \<Rightarrow>
   ('d, 'z) args_scheme \<Rightarrow> console \<Rightarrow> exn + (('d, 'z) args_scheme \<times> console)" where
  "check_hypergraph_single_qubit single_qubit_noise_types py_int collect_parameters args con =
    (if visualization_type args = ''hypergraph''
        \<and> noise_type args \<in> set single_qubit_noise_types \<and> num_qubits args > 1 then
       (case get_input ''hypergraph_single_qubit_prompt'' ''p'' [''p'', ''switch'', ''v'']
               (print_message ''hypergraph_single_qubit_warning'' con) of
          Inl e \<Rightarrow> Inl e
        | Inr (choice, con1) \<Rightarrow>
            if choice = ''switch'' then switch_noise_type args con1
            else if choice = ''v'' then
              switch_to_plot py_int collect_parameters args (print_message ''switched_to_plot'' con1)
            else Inr (args, con1))
     else Inr (args, con))"

text \<open>Lines 491 to 493: the plot settings are collected whenever the view is a plot.\<close>

definition plot_settings ::
  "(string \<Rightarrow> exn + int) \<Rightarrow> (console \<Rightarrow> exn + ('d \<times> console)) \<Rightarrow>
   ('d, 'z) args_scheme \<Rightarrow> console \<Rightarrow> exn + (('d, 'z) args_scheme \<times> console)" where
  "plot_settings py_int collect_parameters args con =
    (if visualization_type args = ''plot'' then switch_to_plot py_int collect_parameters args con
     else Inr (args, con))"

text \<open>Check 3 (lines 495 to 532): density mode, single-qubit noise, noise enabled.\<close>

definition check_density_noise ::
  "string list \<Rightarrow> (console \<Rightarrow> exn + ('d \<times> console)) \<Rightarrow>
   ('d, 'z) args_scheme \<Rightarrow> console \<Rightarrow> exn + ((('d, 'z) args_scheme, 'd) outcome \<times> console)" where
  "check_density_noise single_qubit_noise_types collect_parameters args con =
    (if sim_mode args = ''density'' \<and> noise_type args \<in> set single_qubit_noise_types
        \<and> noise_enabled args then
       (case get_input ''density_noise_prompt'' ''p'' [''p'', ''switch'', ''c'']
               (print_message ''density_noise_warning'' con) of
          Inl e \<Rightarrow> Inl e
        | Inr (choice, con1) \<Rightarrow>
            if choice = ''switch'' then
              (case switch_noise_type args con1 of
                 Inl e \<Rightarrow> Inl e
               | Inr (args1, con2) \<Rightarrow> Inr (Continue args1, con2))
            else if choice = ''p'' then
              Inr (Continue (args\<lparr>noise_enabled := False\<rparr>), print_message ''noise_disabled'' con1)
            else if choice = ''c'' then
              (case collect_parameters (print_message ''config_cancelled'' con1) of
                 Inl e \<Rightarrow> Inl e
               | Inr (d, con2) \<Rightarrow> Inr (Restart d, con2))
            else Inr (Continue args, con1))
     else Inr (Continue args, con))"

text \<open>Check 4 (lines 534 to 549): hypergraph view, density mode, noise disabled.\<close>

definition check_hypergraph_density_no_noise ::
  "(string \<Rightarrow> exn + int) \<Rightarrow> (console \<Rightarrow> exn + ('d \<times> console)) \<Rightarrow>
   ('d, 'z) args_scheme \<Rightarrow> console \<Rightarrow> exn + (('d, 'z) args_scheme \<times> console)" where
  "check_hypergraph_density_no_noise py_int collect_parameters args con =
    (if visualization_type args = ''hypergraph'' \<and> sim_mode args = ''density''
        \<and> \<not> noise_enabled args then
       (case get_input ''hypergraph_density_no_noise_prompt'' ''p'' [''p'', ''e'', ''v'']
               (print_message ''hypergraph_density_no_noise_warning'' con) of
          Inl e \<Rightarrow> Inl e
        | Inr (choice, con1) \<Rightarrow>
            if choice = ''e'' then
              Inr (args\<lparr>noise_enabled := True\<rparr>, print_message ''noise_enabled'' con1)
            else if choice = ''v'' then
              switch_to_plot py_int collect_parameters args
                (print_message ''switched_to_plot_density'' con1)
            else Inr (args, con1))
     else Inr (args, con))"

text \<open>
  \<open>validate_and_prompt\<close>: the five blocks in sequence. A \<open>Restart\<close> of check 1 or
  check 3 is the \<open>return\<close> of the source: no later block runs.
\<close>

definition validate_and_prompt ::
  "string list \<Rightarrow> (string \<Rightarrow> exn + int) \<Rightarrow> (console \<Rightarrow> exn + ('d \<times> console)) \<Rightarrow>
   ('d, 'z) args_scheme \<Rightarrow> console \<Rightarrow> exn + ((('d, 'z) args_scheme, 'd) outcome \<times> console)" where
  "validate_and_prompt single_qubit_noise_types py_int collect_parameters args con =
    (case check_single_qubit_noise single_qubit_noise_types collect_parameters args con of
       Inl e \<Rightarrow> Inl e
     | Inr (Restart d, con1) \<Rightarrow> Inr (Restart d, con1)
     | Inr (Continue args1, con1) \<Rightarrow>
    (case check_hypergraph_single_qubit single_qubit_noise_types py_int collect_parameters
            args1 con1 of
       Inl e \<Rightarrow> Inl e
     | Inr (args2, con2) \<Rightarrow>
    (case plot_settings py_int collect_parameters args2 con2 of
       Inl e \<Rightarrow> Inl e
     | Inr (args3, con3) \<Rightarrow>
    (case check_density_noise single_qubit_noise_types collect_parameters args3 con3 of
       Inl e \<Rightarrow> Inl e
     | Inr (Restart d, con4) \<Rightarrow> Inr (Restart d, con4)
     | Inr (Continue args4, con4) \<Rightarrow>
    (case check_hypergraph_density_no_noise py_int collect_parameters args4 con4 of
       Inl e \<Rightarrow> Inl e
     | Inr (args5, con5) \<Rightarrow> Inr (Continue args5, con5))))))"

section \<open>Concrete values for the runs\<close>

text \<open>
  A stand-in for \<open>collect_parameters\<close> in the concrete runs below: it shows the opening
  message of the collection and yields a token in place of the collected dictionary.
\<close>

definition recollect :: "console \<Rightarrow> exn + (string \<times> console)" where
  "recollect con = Inr (''collected afresh'', print_message ''enter_parameters'' con)"

text \<open>
  Modelled from the spec: the constant \<open>SINGLE_QUBIT_NOISE_TYPES\<close> is defined outside the
  files at hand. Section 4.3 of the specification names \<open>AMPLITUDE_DAMPING\<close>,
  \<open>PHASE_FLIP\<close> and \<open>THERMAL_RELAXATION\<close> as the single-qubit families; the concrete
  runs use this list. The theorems hold for every list.
\<close>

definition single_qubit_families :: "string list" where
  "single_qubit_families = [''AMPLITUDE_DAMPING'', ''PHASE_FLIP'', ''THERMAL_RELAXATION'']"

text \<open>A three-qubit GHZ experiment with amplitude damping, sampled, with no view.\<close>

definition ghz_damping :: "string args" where
  "ghz_damping =
     \<lparr>num_qubits = 3, state_type = ''GHZ'', noise_type = ''AMPLITUDE_DAMPING'',
      noise_enabled = True, sim_mode = ''qasm'', visualization_type = ''none'',
      min_occurrences = Number 0, show_real = False, show_imag = False\<rparr>"

definition keyboard :: "event list \<Rightarrow> console" where
  "keyboard evs = \<lparr>stdin = evs, stdout = []\<rparr>"

section \<open>Evaluation and helper lemmas\<close>

lemmas string_eval = strip_def is_space_def lower_def lower_char_def char_of_def bit_Suc_0_iff

lemma float_not_le:
  "x \<noteq> NaN \<Longrightarrow> y \<noteq> NaN \<Longrightarrow> (\<not> float_le x y) = float_lt y x"
  by (cases x; cases y) auto

lemma thermal_test_numbers:
  "a \<noteq> NaN \<Longrightarrow> b \<noteq> NaN \<Longrightarrow>
   (\<not> (float_le a (Finite 0) \<or> float_le b (Finite 0) \<or> float_gt b a)) =
   (float_lt (Finite 0) a \<and> float_lt (Finite 0) b \<and> float_le b a)"
  unfolding float_gt_def by (cases a; cases b) auto

lemma validate_inputs_tail:
  assumes "1 \<le> nq" "st \<in> set vs" "nt \<in> set vn" "sm = ''qasm'' \<or> sm = ''density''"
    "\<not> (st = ''CLUSTER'' \<and> (\<exists>x. ang = Some x
          \<and> \<not> (float_le (Finite 0) x \<and> float_le x (Finite (2 * np_pi)))))"
    "\<not> (\<exists>x. er = Some x \<and> \<not> (float_le (Finite 0) x \<and> float_le x (Finite 1)))"
  shows "validate_inputs vs vn nq st nt sm ang er z i t1 t2 =
    (if nt = ''PHASE_FLIP'' \<and> (z \<noteq> None \<or> i \<noteq> None) \<and> (z = None \<or> i = None) then
       Inl (ValueError [Lit ''Both z_prob and i_prob must be provided for PHASE_FLIP noise.''])
     else if nt = ''PHASE_FLIP'' \<and> (z \<noteq> None \<or> i \<noteq> None)
             \<and> \<not> (float_le (Finite 0) (the z) \<and> float_le (the z) (Finite 1)
                    \<and> float_le (Finite 0) (the i) \<and> float_le (the i) (Finite 1)
                    \<and> float_lt (float_abs (float_sub (float_add (the z) (the i)) (Finite 1)))
                                (Finite (1 / 10 ^ 10))) then
       Inl (ValueError
         [Lit ''Z and I probabilities for PHASE_FLIP must sum to 1 and be between 0 and 1.''])
     else if nt = ''THERMAL_RELAXATION'' \<and> (t1 \<noteq> None \<or> t2 \<noteq> None)
             \<and> (t1 = None \<or> t2 = None) then
       Inl (ValueError [Lit ''Both t1 and t2 must be provided for THERMAL_RELAXATION noise.''])
     else if nt = ''THERMAL_RELAXATION'' \<and> (t1 \<noteq> None \<or> t2 \<noteq> None)
             \<and> (float_le (the t1) (Finite 0) \<or> float_le (the t2) (Finite 0)
                  \<or> float_gt (the t2) (the t1)) then
       Inl (ValueError
         [Lit ''T1 and T2 must be positive, with T2 <= T1 for realistic relaxation.''])
     else Inr ())"
proof -
  have g: "\<not> nq < 1" "\<not> st \<notin> set vs" "\<not> nt \<notin> set vn" "\<not> sm \<notin> set [''qasm'', ''density'']"
    "\<not> (st = ''CLUSTER'' \<and> ang \<noteq> None
         \<and> \<not> (float_le (Finite 0) (the ang) \<and> float_le (the ang) (Finite (2 * np_pi))))"
    "\<not> (er \<noteq> None \<and> \<not> (float_le (Finite 0) (the er) \<and> float_le (the er) (Finite 1)))"
    using assms by auto
  show ?thesis unfolding validate_inputs_def by (simp only: g if_False)
qed

lemma validate_inputs_basic:
  "validate_inputs vs vn nq st nt sm ang er z i t1 t2 = Inr () \<Longrightarrow>
   1 \<le> nq \<and> st \<in> set vs \<and> nt \<in> set vn \<and> (sm = ''qasm'' \<or> sm = ''density'')
   \<and> \<not> (st = ''CLUSTER'' \<and> (\<exists>x. ang = Some x
          \<and> \<not> (float_le (Finite 0) x \<and> float_le x (Finite (2 * np_pi)))))
   \<and> \<not> (\<exists>x. er = Some x \<and> \<not> (float_le (Finite 0) x \<and> float_le x (Finite 1)))"
  unfolding validate_inputs_def
  by (cases ang; cases er) (simp_all split: if_splits)


lemma pair_ignored_thermal:
  "nt \<noteq> ''THERMAL_RELAXATION'' \<Longrightarrow> validate_inputs vs vn nq st nt sm ang er z i ao bo = validate_inputs vs vn nq st nt sm ang er z i None None"
  unfolding validate_inputs_def by (simp only: HOL.simp_thms if_False)


lemma thermal_tail:
  assumes "1 \<le> nq \<and> st \<in> set vs \<and> ''THERMAL_RELAXATION'' \<in> set vn
   \<and> (sm = ''qasm'' \<or> sm = ''density'')
   \<and> \<not> (st = ''CLUSTER'' \<and> (\<exists>x. ang = Some x
          \<and> \<not> (float_le (Finite 0) x \<and> float_le x (Finite (2 * np_pi)))))
   \<and> \<not> (\<exists>x. er = Some x \<and> \<not> (float_le (Finite 0) x \<and> float_le x (Finite 1)))"
  shows "validate_inputs vs vn nq st ''THERMAL_RELAXATION'' sm ang er z i t1 t2 =
    (if (t1 \<noteq> None \<or> t2 \<noteq> None) \<and> (t1 = None \<or> t2 = None) then
       Inl (ValueError [Lit ''Both t1 and t2 must be provided for THERMAL_RELAXATION noise.''])
     else if (t1 \<noteq> None \<or> t2 \<noteq> None)
             \<and> (float_le (the t1) (Finite 0) \<or> float_le (the t2) (Finite 0)
                  \<or> float_gt (the t2) (the t1)) then
       Inl (ValueError
         [Lit ''T1 and T2 must be positive, with T2 <= T1 for realistic relaxation.''])
     else Inr ())"
proof -
  have ne: "(''THERMAL_RELAXATION'' = ''PHASE_FLIP'') = False" by simp
  from assms have ok: "1 \<le> nq" "st \<in> set vs" "''THERMAL_RELAXATION'' \<in> set vn"
    "sm = ''qasm'' \<or> sm = ''density''"
    "\<not> (st = ''CLUSTER'' \<and> (\<exists>x. ang = Some x
          \<and> \<not> (float_le (Finite 0) x \<and> float_le x (Finite (2 * np_pi)))))"
    "\<not> (\<exists>x. er = Some x \<and> \<not> (float_le (Finite 0) x \<and> float_le x (Finite 1)))"
    by simp_all
  show ?thesis
    unfolding validate_inputs_tail [OF ok] by (simp only: ne HOL.simp_thms if_False)
qed

lemma validate_inputs_tail_cases:
  assumes "1 \<le> nq" "st \<in> set vs" "nt \<in> set vn" "sm = ''qasm'' \<or> sm = ''density''"
    "\<not> (st = ''CLUSTER'' \<and> (\<exists>x. ang = Some x
          \<and> \<not> (float_le (Finite 0) x \<and> float_le x (Finite (2 * np_pi)))))"
    "\<not> (\<exists>x. er = Some x \<and> \<not> (float_le (Finite 0) x \<and> float_le x (Finite 1)))"
  shows "validate_inputs vs vn nq st nt sm ang er z i t1 t2 =
    (if nt = ''PHASE_FLIP'' \<and> (z = None) \<noteq> (i = None) then
       Inl (ValueError [Lit ''Both z_prob and i_prob must be provided for PHASE_FLIP noise.''])
     else if nt = ''PHASE_FLIP''
             \<and> (\<exists>p q. z = Some p \<and> i = Some q
                  \<and> \<not> (float_le (Finite 0) p \<and> float_le p (Finite 1)
                         \<and> float_le (Finite 0) q \<and> float_le q (Finite 1)
                         \<and> float_lt (float_abs (float_sub (float_add p q) (Finite 1)))
                                     (Finite (1 / 10 ^ 10)))) then
       Inl (ValueError
         [Lit ''Z and I probabilities for PHASE_FLIP must sum to 1 and be between 0 and 1.''])
     else if nt = ''THERMAL_RELAXATION'' \<and> (t1 = None) \<noteq> (t2 = None) then
       Inl (ValueError [Lit ''Both t1 and t2 must be provided for THERMAL_RELAXATION noise.''])
     else if nt = ''THERMAL_RELAXATION''
             \<and> (\<exists>x y. t1 = Some x \<and> t2 = Some y
                  \<and> (float_le x (Finite 0) \<or> float_le y (Finite 0) \<or> float_gt y x)) then
       Inl (ValueError
         [Lit ''T1 and T2 must be positive, with T2 <= T1 for realistic relaxation.''])
     else Inr ())"
  unfolding validate_inputs_tail [OF assms]
  by (cases z; cases i; cases t1; cases t2) simp_all

lemma get_input_loop_choice:
  "get_input_loop k d opts evs sh = Inr (u, con') \<Longrightarrow> opts \<noteq> [] \<Longrightarrow>
   u \<in> set (map lower opts) \<or> u = lower d"
proof (induction k d opts evs sh rule: get_input_loop.induct)
  case (1 k d opts sh)
  then show ?case by simp
next
  case (2 k d opts rest sh)
  then show ?case by simp
next
  case (3 k d opts l rest sh)
  then show ?case by (auto simp: Let_def split: if_splits)
qed

lemma get_input_choice:
  "get_input k d opts con = Inr (u, con') \<Longrightarrow> opts \<noteq> [] \<Longrightarrow>
   u \<in> set (map lower opts) \<or> u = lower d"
  unfolding get_input_def by (rule get_input_loop_choice)

lemma choice_p_switch_c:
  assumes "get_input k ''p'' [''p'', ''switch'', ''c''] con = Inr (u, con')"
  shows "u = ''p'' \<or> u = ''switch'' \<or> u = ''c''"
  using get_input_choice [OF assms] by (auto simp: string_eval)

lemma choice_p_switch_v:
  assumes "get_input k ''p'' [''p'', ''switch'', ''v''] con = Inr (u, con')"
  shows "u = ''p'' \<or> u = ''switch'' \<or> u = ''v''"
  using get_input_choice [OF assms] by (auto simp: string_eval)




lemma switch_noise_type_result:
  assumes "switch_noise_type args con = Inr (a, con')"
  shows "a = args\<lparr>noise_type := ''DEPOLARIZING''\<rparr> \<or> a = args\<lparr>noise_type := ''PHASE_FLIP''\<rparr>
         \<or> a = args\<lparr>noise_type := ''THERMAL_RELAXATION''\<rparr>"
  using assms unfolding switch_noise_type_def
  by (auto split: sum.splits prod.splits if_splits)

lemmas run_eval = get_input_def print_message_def keyboard_def Let_def string_eval

section \<open>The numeric validator\<close>




text \<open>
  Claim C4, as amended. The pair \<open>t1\<close>, \<open>t2\<close> is examined only when the noise type is
  \<open>THERMAL_RELAXATION\<close>. A \<open>THERMAL_RELAXATION\<close> configuration with both times set to
  numbers (neither is NaN) is accepted only if both are strictly positive and
  \<open>t2 \<le> t1\<close>; when the rest of the configuration is acceptable it is accepted exactly
  then, and otherwise rejected with the message naming the rule. So
  \<open>(t1, t2) = (80e-6, 100e-6)\<close> is rejected and \<open>(100e-6, 80e-6)\<close> accepted under
  \<open>THERMAL_RELAXATION\<close>. For every other noise type the result does not depend on the
  pair. On finite numbers the test is the one on the reals.
\<close>

theorem thermal_relaxation_times_checked:
  "(a \<noteq> NaN \<and> b \<noteq> NaN \<longrightarrow>
      (validate_inputs vs vn nq st ''THERMAL_RELAXATION'' sm ang er z i None None = Inr () \<longrightarrow>
        validate_inputs vs vn nq st ''THERMAL_RELAXATION'' sm ang er z i (Some a) (Some b) =
          (if float_lt (Finite 0) a \<and> float_lt (Finite 0) b \<and> float_le b a then Inr ()
           else Inl (ValueError
             [Lit ''T1 and T2 must be positive, with T2 <= T1 for realistic relaxation.''])))
      \<and> (validate_inputs vs vn nq st ''THERMAL_RELAXATION'' sm ang er z i (Some a) (Some b) = Inr ()
          \<longrightarrow> float_lt (Finite 0) a \<and> float_lt (Finite 0) b \<and> float_le b a))
   \<and> ((float_lt (Finite 0) (Finite x) \<and> float_lt (Finite 0) (Finite y)
        \<and> float_le (Finite y) (Finite x)) = (0 < x \<and> 0 < y \<and> y \<le> x))
   \<and> (nt \<noteq> ''THERMAL_RELAXATION'' \<longrightarrow>
        validate_inputs vs vn nq st nt sm ang er z i ao bo =
        validate_inputs vs vn nq st nt sm ang er z i None None)"
proof (intro conjI impI)
  assume n: "a \<noteq> NaN \<and> b \<noteq> NaN"
    and base: "validate_inputs vs vn nq st ''THERMAL_RELAXATION'' sm ang er z i None None = Inr ()"
  have t: "(\<not> (float_le a (Finite 0) \<or> float_le b (Finite 0) \<or> float_gt b a)) =
     (float_lt (Finite 0) a \<and> float_lt (Finite 0) b \<and> float_le b a)"
    using n thermal_test_numbers [of a b] by blast
  show "validate_inputs vs vn nq st ''THERMAL_RELAXATION'' sm ang er z i (Some a) (Some b) =
          (if float_lt (Finite 0) a \<and> float_lt (Finite 0) b \<and> float_le b a then Inr ()
           else Inl (ValueError
             [Lit ''T1 and T2 must be positive, with T2 <= T1 for realistic relaxation.'']))"
    unfolding thermal_tail [OF validate_inputs_basic [OF base]] t [symmetric] by simp
next
  assume n: "a \<noteq> NaN \<and> b \<noteq> NaN"
    and acc: "validate_inputs vs vn nq st ''THERMAL_RELAXATION'' sm ang er z i (Some a) (Some b)
          = Inr ()"
  have t: "(\<not> (float_le a (Finite 0) \<or> float_le b (Finite 0) \<or> float_gt b a)) =
     (float_lt (Finite 0) a \<and> float_lt (Finite 0) b \<and> float_le b a)"
    using n thermal_test_numbers [of a b] by blast
  have "\<not> (float_le a (Finite 0) \<or> float_le b (Finite 0) \<or> float_gt b a)"
    using acc unfolding thermal_tail [OF validate_inputs_basic [OF acc]]
    by (simp split: if_splits)
  with t have "float_lt (Finite 0) a \<and> float_lt (Finite 0) b \<and> float_le b a" by simp
  then show "float_lt (Finite 0) a" "float_lt (Finite 0) b" "float_le b a" by simp_all
next
  show "(float_lt (Finite 0) (Finite x) \<and> float_lt (Finite 0) (Finite y)
        \<and> float_le (Finite y) (Finite x)) = (0 < x \<and> 0 < y \<and> y \<le> x)"
    by simp
next
  assume "nt \<noteq> ''THERMAL_RELAXATION''"
  then show "validate_inputs vs vn nq st nt sm ang er z i ao bo =
        validate_inputs vs vn nq st nt sm ang er z i None None"
    by (rule pair_ignored_thermal)
qed

theorem thermal_relaxation_times_checked_witness:
  "validate_inputs [''GHZ''] [''DEPOLARIZING'', ''THERMAL_RELAXATION''] 3 ''GHZ''
      ''THERMAL_RELAXATION'' ''qasm'' None None None None
      (Some (Finite (80 / 10 ^ 6))) (Some (Finite (100 / 10 ^ 6))) =
     Inl (ValueError [Lit ''T1 and T2 must be positive, with T2 <= T1 for realistic relaxation.''])
   \<and> validate_inputs [''GHZ''] [''DEPOLARIZING'', ''THERMAL_RELAXATION''] 3 ''GHZ''
      ''THERMAL_RELAXATION'' ''qasm'' None None None None
      (Some (Finite (100 / 10 ^ 6))) (Some (Finite (80 / 10 ^ 6))) =
     Inr ()"
proof -
  have base: "validate_inputs [''GHZ''] [''DEPOLARIZING'', ''THERMAL_RELAXATION''] 3 ''GHZ''
      ''THERMAL_RELAXATION'' ''qasm'' None None None None None None = Inr ()"
    by (simp add: validate_inputs_def)
  have n: "Finite (80 / 10 ^ 6) \<noteq> NaN \<and> Finite (100 / 10 ^ 6) \<noteq> NaN"
    "Finite (100 / 10 ^ 6) \<noteq> NaN \<and> Finite (80 / 10 ^ 6) \<noteq> NaN"
    by simp_all
  have r: "\<not> (float_lt (Finite 0) (Finite (80 / 10 ^ 6)) \<and> float_lt (Finite 0) (Finite (100 / 10 ^ 6))
              \<and> float_le (Finite (100 / 10 ^ 6)) (Finite (80 / 10 ^ 6)))"
    by simp
  have a: "float_lt (Finite 0) (Finite (100 / 10 ^ 6)) \<and> float_lt (Finite 0) (Finite (80 / 10 ^ 6))
              \<and> float_le (Finite (80 / 10 ^ 6)) (Finite (100 / 10 ^ 6))"
    by simp
  have e1: "validate_inputs [''GHZ''] [''DEPOLARIZING'', ''THERMAL_RELAXATION''] 3 ''GHZ''
      ''THERMAL_RELAXATION'' ''qasm'' None None None None
      (Some (Finite (80 / 10 ^ 6))) (Some (Finite (100 / 10 ^ 6))) =
     Inl (ValueError [Lit ''T1 and T2 must be positive, with T2 <= T1 for realistic relaxation.''])"
    using thermal_relaxation_times_checked [THEN conjunct1, rule_format, OF n(1),
        THEN conjunct1, rule_format, OF base] r
    by (simp only: if_False HOL.simp_thms)
  have e2: "validate_inputs [''GHZ''] [''DEPOLARIZING'', ''THERMAL_RELAXATION''] 3 ''GHZ''
      ''THERMAL_RELAXATION'' ''qasm'' None None None None
      (Some (Finite (100 / 10 ^ 6))) (Some (Finite (80 / 10 ^ 6))) =
     Inr ()"
    using thermal_relaxation_times_checked [THEN conjunct1, rule_format, OF n(2),
        THEN conjunct1, rule_format, OF base] a
    by (simp only: if_True HOL.simp_thms)
  from e1 e2 show ?thesis by (rule conjI)
qed

text \<open>
  The claim as first stated fails: with noise type \<open>DEPOLARIZING\<close> the pair
  \<open>t1 = 80e-6\<close>, \<open>t2 = 100e-6\<close> is accepted.
\<close>

theorem thermal_gate_counterexample:
  "validate_inputs [''GHZ''] [''DEPOLARIZING'', ''THERMAL_RELAXATION''] 3 ''GHZ'' ''DEPOLARIZING''
      ''qasm'' None None None None (Some (Finite (80 / 10 ^ 6))) (Some (Finite (100 / 10 ^ 6)))
     = Inr ()"
  by (simp add: validate_inputs_def)

text \<open>
  The statement above leaves NaN aside. The source tests \<open>t1 <= 0 or t2 <= 0 or t2 > t1\<close>,
  and every comparison with NaN is false, so a NaN time passes the test, unlike a NaN
  rate or probability, whose tests are written \<open>not (0 <= x <= 1)\<close>.
\<close>

lemma thermal_nan_accepted:
  "validate_inputs [''GHZ''] [''THERMAL_RELAXATION''] 3 ''GHZ'' ''THERMAL_RELAXATION'' ''qasm''
      None None None None (Some NaN) (Some (Finite 1)) = Inr ()"
  by (simp add: validate_inputs_def float_gt_def)

text \<open>
  Claim C8, as amended. \<open>validate_inputs\<close> takes the fields as arguments and returns
  nothing (\<open>None\<close>) exactly when: the qubit count is at least 1, the state and noise
  types are known, the simulation mode is \<open>qasm\<close> or \<open>density\<close>, the angle of a
  \<open>CLUSTER\<close> state (if given) lies between 0 and twice \<open>np.pi\<close>, the error rate (if
  given) lies in the unit interval, the pair \<open>z_prob\<close>, \<open>i_prob\<close> of a \<open>PHASE_FLIP\<close>
  configuration is absent or satisfies the simplex rule, and the pair \<open>t1\<close>, \<open>t2\<close> of a
  \<open>THERMAL_RELAXATION\<close> configuration is absent or positive and ordered. In every other
  case it raises the \<open>ValueError\<close> of the first rule violated, in the order just given:
  the second part of the statement gives, rule by rule, the message raised when that
  rule is the first to fail. The relaxation times of a \<open>THERMAL_RELAXATION\<close>
  configuration are taken to be numbers (not NaN). The function is a pure function of
  its arguments.
\<close>

theorem validate_inputs_contract:
  fixes vs vn :: "string list" and nq :: int and st nt sm :: string
    and ang er z i t1 t2 :: "pyfloat option"
  defines "res \<equiv> validate_inputs vs vn nq st nt sm ang er z i t1 t2"
    and "bad_angle \<equiv> st = ''CLUSTER'' \<and> (\<exists>x. ang = Some x
          \<and> \<not> (float_le (Finite 0) x \<and> float_le x (Finite (2 * np_pi))))"
    and "bad_rate \<equiv> \<exists>x. er = Some x \<and> \<not> (float_le (Finite 0) x \<and> float_le x (Finite 1))"
    and "half_probs \<equiv> (z = None) \<noteq> (i = None)"
    and "bad_probs \<equiv> \<exists>p q. z = Some p \<and> i = Some q
          \<and> \<not> (float_le (Finite 0) p \<and> float_le p (Finite 1)
                 \<and> float_le (Finite 0) q \<and> float_le q (Finite 1)
                 \<and> float_lt (float_abs (float_sub (float_add p q) (Finite 1)))
                             (Finite (1 / 10 ^ 10)))"
    and "half_times \<equiv> (t1 = None) \<noteq> (t2 = None)"
    and "bad_times \<equiv> \<exists>x y. t1 = Some x \<and> t2 = Some y
          \<and> \<not> (float_lt (Finite 0) x \<and> float_lt (Finite 0) y \<and> float_le y x)"
  assumes nan: "nt = ''THERMAL_RELAXATION'' \<longrightarrow> t1 \<noteq> Some NaN \<and> t2 \<noteq> Some NaN"
  shows "(res = Inr () \<longleftrightarrow>
            1 \<le> nq \<and> st \<in> set vs \<and> nt \<in> set vn \<and> (sm = ''qasm'' \<or> sm = ''density'')
            \<and> \<not> bad_angle \<and> \<not> bad_rate
            \<and> (nt = ''PHASE_FLIP'' \<longrightarrow> \<not> half_probs \<and> \<not> bad_probs)
            \<and> (nt = ''THERMAL_RELAXATION'' \<longrightarrow> \<not> half_times \<and> \<not> bad_times))
    \<and> (nq < 1 \<longrightarrow> res = Inl (ValueError [Lit ''Number of qubits must be at least 1.'']))
    \<and> (1 \<le> nq \<longrightarrow>
        (st \<notin> set vs \<longrightarrow>
           res = Inl (ValueError [Lit ''Invalid state type: '', StrArg st,
                                  Lit ''. Choose from '', ListArg vs]))
      \<and> (st \<in> set vs \<longrightarrow>
        (nt \<notin> set vn \<longrightarrow>
           res = Inl (ValueError [Lit ''Invalid noise type: '', StrArg nt,
                                  Lit ''. Choose from '', ListArg vn]))
      \<and> (nt \<in> set vn \<longrightarrow>
        (\<not> (sm = ''qasm'' \<or> sm = ''density'') \<longrightarrow>
           res = Inl (ValueError [Lit ''Invalid simulation mode: '', StrArg sm,
                                  Lit ''. Choose from '', ListArg [''qasm'', ''density'']]))
      \<and> (sm = ''qasm'' \<or> sm = ''density'' \<longrightarrow>
        (bad_angle \<longrightarrow>
           res = Inl (ValueError [Lit ''Angle for CLUSTER state must be between 0 and 2'',
                                  Lit [CHR 0xCF, CHR 0x80], Lit '' radians.'']))
      \<and> (\<not> bad_angle \<longrightarrow>
        (bad_rate \<longrightarrow> res = Inl (ValueError [Lit ''Error rate must be between 0 and 1.'']))
      \<and> (\<not> bad_rate \<longrightarrow>
        (nt = ''PHASE_FLIP'' \<and> half_probs \<longrightarrow>
           res = Inl (ValueError
             [Lit ''Both z_prob and i_prob must be provided for PHASE_FLIP noise.'']))
      \<and> (nt = ''PHASE_FLIP'' \<and> \<not> half_probs \<and> bad_probs \<longrightarrow>
           res = Inl (ValueError
             [Lit ''Z and I probabilities for PHASE_FLIP must sum to 1 and be between 0 and 1.'']))
      \<and> (nt = ''THERMAL_RELAXATION'' \<and> half_times \<longrightarrow>
           res = Inl (ValueError
             [Lit ''Both t1 and t2 must be provided for THERMAL_RELAXATION noise.'']))
      \<and> (nt = ''THERMAL_RELAXATION'' \<and> \<not> half_times \<and> bad_times \<longrightarrow>
           res = Inl (ValueError
             [Lit ''T1 and T2 must be positive, with T2 <= T1 for realistic relaxation.'']))))))))"
proof -
  have e1: "res = Inl (ValueError [Lit ''Number of qubits must be at least 1.''])" if "nq < 1"
    using that by (simp add: res_def validate_inputs_def)
  have e2: "res = Inl (ValueError [Lit ''Invalid state type: '', StrArg st,
                                  Lit ''. Choose from '', ListArg vs])"
    if "1 \<le> nq" "st \<notin> set vs"
    using that by (simp add: res_def validate_inputs_def)
  have e3: "res = Inl (ValueError [Lit ''Invalid noise type: '', StrArg nt,
                                  Lit ''. Choose from '', ListArg vn])"
    if "1 \<le> nq" "st \<in> set vs" "nt \<notin> set vn"
    using that by (simp add: res_def validate_inputs_def)
  have e4: "res = Inl (ValueError [Lit ''Invalid simulation mode: '', StrArg sm,
                                  Lit ''. Choose from '', ListArg [''qasm'', ''density'']])"
    if "1 \<le> nq" "st \<in> set vs" "nt \<in> set vn" "\<not> (sm = ''qasm'' \<or> sm = ''density'')"
    using that by (simp add: res_def validate_inputs_def)
  have e5: "res = Inl (ValueError [Lit ''Angle for CLUSTER state must be between 0 and 2'',
                                  Lit [CHR 0xCF, CHR 0x80], Lit '' radians.''])"
    if "1 \<le> nq" "st \<in> set vs" "nt \<in> set vn" "sm = ''qasm'' \<or> sm = ''density''" "bad_angle"
  proof -
    from that(5) obtain x where x: "st = ''CLUSTER''" "ang = Some x"
      "\<not> (float_le (Finite 0) x \<and> float_le x (Finite (2 * np_pi)))"
      unfolding bad_angle_def by blast
    show ?thesis using that(1-4) x by (simp add: res_def validate_inputs_def)
  qed
  have e6: "res = Inl (ValueError [Lit ''Error rate must be between 0 and 1.''])"
    if "1 \<le> nq" "st \<in> set vs" "nt \<in> set vn" "sm = ''qasm'' \<or> sm = ''density''"
      "\<not> bad_angle" "bad_rate"
  proof -
    from that(6) obtain x where x: "er = Some x"
      "\<not> (float_le (Finite 0) x \<and> float_le x (Finite 1))"
      unfolding bad_rate_def by blast
    show ?thesis using that(1-5) x unfolding bad_angle_def res_def validate_inputs_def
      by (cases ang) auto
  qed
  have times: "(\<exists>x y. t1 = Some x \<and> t2 = Some y
                  \<and> (float_le x (Finite 0) \<or> float_le y (Finite 0) \<or> float_gt y x)) = bad_times"
    if "nt = ''THERMAL_RELAXATION''"
  proof -
    have "(float_le x (Finite 0) \<or> float_le y (Finite 0) \<or> float_gt y x)
        = (\<not> (float_lt (Finite 0) x \<and> float_lt (Finite 0) y \<and> float_le y x))"
      if "t1 = Some x" "t2 = Some y" for x y
    proof -
      have "x \<noteq> NaN" "y \<noteq> NaN" using nan \<open>nt = ''THERMAL_RELAXATION''\<close> that by auto
      from thermal_test_numbers [OF this] show ?thesis by blast
    qed
    then show ?thesis unfolding bad_times_def by blast
  qed
  have deep: "res =
    (if nt = ''PHASE_FLIP'' \<and> half_probs then
       Inl (ValueError [Lit ''Both z_prob and i_prob must be provided for PHASE_FLIP noise.''])
     else if nt = ''PHASE_FLIP'' \<and> bad_probs then
       Inl (ValueError
         [Lit ''Z and I probabilities for PHASE_FLIP must sum to 1 and be between 0 and 1.''])
     else if nt = ''THERMAL_RELAXATION'' \<and> half_times then
       Inl (ValueError [Lit ''Both t1 and t2 must be provided for THERMAL_RELAXATION noise.''])
     else if nt = ''THERMAL_RELAXATION'' \<and> bad_times then
       Inl (ValueError
         [Lit ''T1 and T2 must be positive, with T2 <= T1 for realistic relaxation.''])
     else Inr ())"
    if ok: "1 \<le> nq" "st \<in> set vs" "nt \<in> set vn" "sm = ''qasm'' \<or> sm = ''density''"
      "\<not> bad_angle" "\<not> bad_rate"
  proof (cases "nt = ''THERMAL_RELAXATION''")
    case True
    show ?thesis
      unfolding res_def half_probs_def bad_probs_def half_times_def
        validate_inputs_tail_cases [OF ok [unfolded bad_angle_def bad_rate_def]]
        times [OF True, symmetric]
      by (rule refl)
  next
    case False
    then show ?thesis
      unfolding res_def half_probs_def bad_probs_def half_times_def
        validate_inputs_tail_cases [OF ok [unfolded bad_angle_def bad_rate_def]]
      by (simp only: HOL.simp_thms if_False)
  qed
  have ne: "''PHASE_FLIP'' \<noteq> ''THERMAL_RELAXATION''" by simp
  have iff: "res = Inr () \<longleftrightarrow>
            1 \<le> nq \<and> st \<in> set vs \<and> nt \<in> set vn \<and> (sm = ''qasm'' \<or> sm = ''density'')
            \<and> \<not> bad_angle \<and> \<not> bad_rate
            \<and> (nt = ''PHASE_FLIP'' \<longrightarrow> \<not> half_probs \<and> \<not> bad_probs)
            \<and> (nt = ''THERMAL_RELAXATION'' \<longrightarrow> \<not> half_times \<and> \<not> bad_times)"
  proof
    assume r: "res = Inr ()"
    then have ok: "1 \<le> nq" "st \<in> set vs" "nt \<in> set vn" "sm = ''qasm'' \<or> sm = ''density''"
      "\<not> bad_angle" "\<not> bad_rate"
      using validate_inputs_basic [of vs vn nq st nt sm ang er z i t1 t2]
      unfolding res_def bad_angle_def bad_rate_def by simp_all
    from r deep [OF ok] have "(nt = ''PHASE_FLIP'' \<longrightarrow> \<not> half_probs \<and> \<not> bad_probs)
            \<and> (nt = ''THERMAL_RELAXATION'' \<longrightarrow> \<not> half_times \<and> \<not> bad_times)"
      by (auto split: if_splits)
    with ok show "1 \<le> nq \<and> st \<in> set vs \<and> nt \<in> set vn \<and> (sm = ''qasm'' \<or> sm = ''density'')
            \<and> \<not> bad_angle \<and> \<not> bad_rate
            \<and> (nt = ''PHASE_FLIP'' \<longrightarrow> \<not> half_probs \<and> \<not> bad_probs)
            \<and> (nt = ''THERMAL_RELAXATION'' \<longrightarrow> \<not> half_times \<and> \<not> bad_times)"
      by blast
  next
    assume a: "1 \<le> nq \<and> st \<in> set vs \<and> nt \<in> set vn \<and> (sm = ''qasm'' \<or> sm = ''density'')
            \<and> \<not> bad_angle \<and> \<not> bad_rate
            \<and> (nt = ''PHASE_FLIP'' \<longrightarrow> \<not> half_probs \<and> \<not> bad_probs)
            \<and> (nt = ''THERMAL_RELAXATION'' \<longrightarrow> \<not> half_times \<and> \<not> bad_times)"
    then have ok: "1 \<le> nq" "st \<in> set vs" "nt \<in> set vn" "sm = ''qasm'' \<or> sm = ''density''"
      "\<not> bad_angle" "\<not> bad_rate" by simp_all
    from a show "res = Inr ()" unfolding deep [OF ok] by auto
  qed
  have d7: "res = Inl (ValueError
             [Lit ''Both z_prob and i_prob must be provided for PHASE_FLIP noise.''])"
    if "1 \<le> nq" "st \<in> set vs" "nt \<in> set vn" "sm = ''qasm'' \<or> sm = ''density''"
      "\<not> bad_angle" "\<not> bad_rate" "nt = ''PHASE_FLIP'' \<and> half_probs"
    using that(7) unfolding deep [OF that(1-6)] by simp
  have d8: "res = Inl (ValueError
             [Lit ''Z and I probabilities for PHASE_FLIP must sum to 1 and be between 0 and 1.''])"
    if "1 \<le> nq" "st \<in> set vs" "nt \<in> set vn" "sm = ''qasm'' \<or> sm = ''density''"
      "\<not> bad_angle" "\<not> bad_rate" "nt = ''PHASE_FLIP'' \<and> \<not> half_probs \<and> bad_probs"
    using that(7) unfolding deep [OF that(1-6)] by simp
  have d9: "res = Inl (ValueError
             [Lit ''Both t1 and t2 must be provided for THERMAL_RELAXATION noise.''])"
    if "1 \<le> nq" "st \<in> set vs" "nt \<in> set vn" "sm = ''qasm'' \<or> sm = ''density''"
      "\<not> bad_angle" "\<not> bad_rate" "nt = ''THERMAL_RELAXATION'' \<and> half_times"
    using that(7) unfolding deep [OF that(1-6)] by simp
  have d10: "res = Inl (ValueError
             [Lit ''T1 and T2 must be positive, with T2 <= T1 for realistic relaxation.''])"
    if "1 \<le> nq" "st \<in> set vs" "nt \<in> set vn" "sm = ''qasm'' \<or> sm = ''density''"
      "\<not> bad_angle" "\<not> bad_rate" "nt = ''THERMAL_RELAXATION'' \<and> \<not> half_times \<and> bad_times"
    using that(7) unfolding deep [OF that(1-6)] by simp
  show ?thesis
    by (intro conjI impI) (rule iff e1 e2 e3 e4 e5 e6 d7 d8 d9 d10; assumption)+
qed

theorem validate_inputs_contract_witness:
  "validate_inputs [''GHZ'', ''CLUSTER''] [''DEPOLARIZING'', ''THERMAL_RELAXATION''] 3 ''CLUSTER''
      ''THERMAL_RELAXATION'' ''density'' (Some (Finite 1)) (Some (Finite (1 / 100))) None None
      (Some (Finite 100)) (Some (Finite 80)) = Inr ()
   \<and> validate_inputs [''GHZ'', ''CLUSTER''] [''DEPOLARIZING'', ''THERMAL_RELAXATION''] 3 ''GHZ''
      ''DEPOLARIZING'' ''qasm'' None (Some (Finite (3 / 2))) None None None None =
     Inl (ValueError [Lit ''Error rate must be between 0 and 1.''])
   \<and> validate_inputs [''GHZ'', ''CLUSTER''] [''DEPOLARIZING'', ''THERMAL_RELAXATION''] 0 ''BELL''
      ''DEPOLARIZING'' ''qasm'' None (Some (Finite (3 / 2))) None None None None =
     Inl (ValueError [Lit ''Number of qubits must be at least 1.''])"
proof -
  have n1: "''THERMAL_RELAXATION'' = ''THERMAL_RELAXATION'' \<longrightarrow>
      Some (Finite 100) \<noteq> Some NaN \<and> Some (Finite 80) \<noteq> Some NaN"
    by simp
  have n2: "''DEPOLARIZING'' = ''THERMAL_RELAXATION'' \<longrightarrow> None \<noteq> Some NaN \<and> None \<noteq> Some NaN"
    by simp
  have a: "validate_inputs [''GHZ'', ''CLUSTER''] [''DEPOLARIZING'', ''THERMAL_RELAXATION''] 3
      ''CLUSTER'' ''THERMAL_RELAXATION'' ''density'' (Some (Finite 1)) (Some (Finite (1 / 100)))
      None None (Some (Finite 100)) (Some (Finite 80)) = Inr ()"
    using validate_inputs_contract [where vs = "[''GHZ'', ''CLUSTER'']"
        and vn = "[''DEPOLARIZING'', ''THERMAL_RELAXATION'']" and nq = 3 and st = "''CLUSTER''"
        and sm = "''density''" and ang = "Some (Finite 1)" and er = "Some (Finite (1 / 100))"
        and z = None and i = None, OF n1, THEN conjunct1]
    by (simp add: np_pi_def)
  have b: "validate_inputs [''GHZ'', ''CLUSTER''] [''DEPOLARIZING'', ''THERMAL_RELAXATION''] 3
      ''GHZ'' ''DEPOLARIZING'' ''qasm'' None (Some (Finite (3 / 2))) None None None None =
     Inl (ValueError [Lit ''Error rate must be between 0 and 1.''])"
    using validate_inputs_contract [where vs = "[''GHZ'', ''CLUSTER'']"
        and vn = "[''DEPOLARIZING'', ''THERMAL_RELAXATION'']" and nq = 3 and st = "''GHZ''"
        and sm = "''qasm''" and ang = None and er = "Some (Finite (3 / 2))"
        and z = None and i = None, OF n2, THEN conjunct2, THEN conjunct2]
    by simp
  have c: "validate_inputs [''GHZ'', ''CLUSTER''] [''DEPOLARIZING'', ''THERMAL_RELAXATION''] 0
      ''BELL'' ''DEPOLARIZING'' ''qasm'' None (Some (Finite (3 / 2))) None None None None =
     Inl (ValueError [Lit ''Number of qubits must be at least 1.''])"
    using validate_inputs_contract [where vs = "[''GHZ'', ''CLUSTER'']"
        and vn = "[''DEPOLARIZING'', ''THERMAL_RELAXATION'']" and nq = 0 and st = "''BELL''"
        and sm = "''qasm''" and ang = None and er = "Some (Finite (3 / 2))"
        and z = None and i = None, OF n2, THEN conjunct2, THEN conjunct1]
    by simp
  from a b c show ?thesis by simp
qed

text \<open>
  The claim as first stated fails: a configuration that breaks the invariants of the
  data model (\<open>z_prob = 2\<close> with no \<open>i_prob\<close>, \<open>t1 = -1\<close> with no \<open>t2\<close>) is accepted
  when its noise type is neither \<open>PHASE_FLIP\<close> nor \<open>THERMAL_RELAXATION\<close>.
\<close>

theorem invariants_unchecked_counterexample:
  "validate_inputs [''GHZ''] [''AMPLITUDE_DAMPING''] 3 ''GHZ'' ''AMPLITUDE_DAMPING'' ''density''
      None None (Some (Finite 2)) None (Some (Finite (- 1))) None = Inr ()"
  by (simp add: validate_inputs_def)

section \<open>The prompt validators\<close>

text \<open>
  Claim C9. \<open>validate_choice\<close> returns \<open>True\<close> when \<open>valid_options\<close> is \<open>None\<close> or
  the empty list, whatever the input and the flag; for a non-empty list and
  \<open>case_sensitive\<close> false it returns \<open>True\<close> exactly when the lowered input equals
  the lowering of some option.
\<close>

theorem validate_choice_spec:
  "(vo = None \<or> vo = Some [] \<longrightarrow> validate_choice u vo cs)
   \<and> (opts \<noteq> [] \<longrightarrow>
        validate_choice u (Some opts) False = (\<exists>opt\<in>set opts. lower u = lower opt))"
  by (auto simp: validate_choice_def)

theorem validate_choice_spec_witness:
  "validate_choice ''anything'' None True \<and> validate_choice ''anything'' (Some []) False
   \<and> validate_choice ''SWITCH'' (Some [''p'', ''Switch'', ''c'']) False
   \<and> \<not> validate_choice ''x'' (Some [''p'', ''Switch'', ''c'']) False"
proof -
  have l: "lower ''SWITCH'' = lower ''Switch''" "lower ''x'' \<noteq> lower ''p''"
    "lower ''x'' \<noteq> lower ''Switch''" "lower ''x'' \<noteq> lower ''c''"
    by (simp_all add: string_eval)
  show ?thesis
    using l validate_choice_spec [of None "''anything''" True "[''p'', ''Switch'', ''c'']"]
      validate_choice_spec [of "Some []" "''anything''" False "[''p'', ''Switch'', ''c'']"]
      validate_choice_spec [of None "''SWITCH''" True "[''p'', ''Switch'', ''c'']"]
      validate_choice_spec [of None "''x''" True "[''p'', ''Switch'', ''c'']"]
    by simp
qed

text \<open>
  Claim C10. \<open>validate_numeric\<close> returns the converted value when the constructor
  yields one and \<open>None\<close> when it raises \<open>ValueError\<close>; for a constructor that signals
  an unparsable string by \<open>ValueError\<close> and by nothing else, as \<open>int\<close> and \<open>float\<close> do
  on a string, no exception leaves the function.
\<close>

theorem validate_numeric_catches_value_error:
  "(expected_type s = Inr v \<longrightarrow> validate_numeric s expected_type = Inr (Some v))
   \<and> (expected_type s = Inl (ValueError m) \<longrightarrow> validate_numeric s expected_type = Inr None)
   \<and> ((\<forall>e. expected_type s = Inl e \<longrightarrow> (\<exists>m'. e = ValueError m')) \<longrightarrow>
        validate_numeric s expected_type =
          Inr (case expected_type s of Inr v' \<Rightarrow> Some v' | Inl e \<Rightarrow> None))"
  by (auto simp: validate_numeric_def split: sum.splits exn.splits)

theorem validate_numeric_catches_value_error_witness:
  "validate_numeric ''42'' int_decimal = Inr (Some 42)
   \<and> validate_numeric ''4x'' int_decimal = Inr None
   \<and> validate_numeric '''' int_decimal = Inr None"
proof -
  have a: "int_decimal ''42'' = Inr 42"
    and b: "int_decimal ''4x'' = Inl (ValueError [Lit ''invalid literal for int() with base 10: '', StrArg ''4x''])"
    and c: "\<forall>e. int_decimal '''' = Inl e \<longrightarrow> (\<exists>m'. e = ValueError m')"
    by (simp_all add: int_decimal_def is_digit_def)
  show ?thesis
    using a b c
      validate_numeric_catches_value_error [of int_decimal "''42''" 42]
      validate_numeric_catches_value_error [of int_decimal "''4x''" _
        "[Lit ''invalid literal for int() with base 10: '', StrArg ''4x'']"]
      validate_numeric_catches_value_error [of int_decimal "''''"]
    by (simp add: int_decimal_def)
qed

section \<open>Amplitude damping\<close>

text \<open>
  Claim C6. For every gate list with no gate among \<open>id\<close>, \<open>u1\<close>, \<open>u2\<close>, \<open>u3\<close>,
  \<open>apply\<close> returns normally, whatever the library calls would do: the noise model is
  the one passed in (nothing is attached) and exactly one record is added to the log,
  the skip warning naming the gate list.
\<close>

theorem amplitude_damping_skips:
  "(\<forall>g\<in>set gate_list. g \<notin> set [''id'', ''u1'', ''u2'', ''u3'']) \<Longrightarrow>
   AmplitudeDampingNoise_apply amplitude_damping_error add_all_qubit_quantum_error error_rate
       noise_model gate_list qubits_for_error logged =
     Inr (noise_model,
          logged @ [\<lparr>family = ''AMPLITUDE_DAMPING'', gates = gate_list,
                     extra_info = [(''warning'', Text ''No valid 1-qubit gates found, skipping'')]\<rparr>])"
proof -
  assume "\<forall>g\<in>set gate_list. g \<notin> set [''id'', ''u1'', ''u2'', ''u3'']"
  then have f: "filter (\<lambda>g. g \<in> set [''id'', ''u1'', ''u2'', ''u3'']) gate_list = []"
    by (simp add: filter_empty_conv)
  show ?thesis
    unfolding AmplitudeDampingNoise_apply_def Let_def f log_noise_application_def
    by simp
qed

theorem amplitude_damping_skips_witness:
  "AmplitudeDampingNoise_apply damping_channel attach_all (3 / 2) [(''id'', 1 / 10)]
       [''cx'', ''ccx'', ''swap''] None [] =
     Inr ([(''id'', 1 / 10)],
          [\<lparr>family = ''AMPLITUDE_DAMPING'', gates = [''cx'', ''ccx'', ''swap''],
            extra_info = [(''warning'', Text ''No valid 1-qubit gates found, skipping'')]\<rparr>])"
proof -
  have h: "\<forall>g\<in>set [''cx'', ''ccx'', ''swap'']. g \<notin> set [''id'', ''u1'', ''u2'', ''u3'']"
    by simp
  show ?thesis
    using amplitude_damping_skips [OF h, of damping_channel attach_all "3 / 2"
        "[(''id'', 1 / 10)]" None "[]"]
    by simp
qed

section \<open>The compatibility checks\<close>

text \<open>
  Claim C5, as amended. When the view is a hypergraph, the noise type is single-qubit
  and there is more than one qubit, check 2 acts on one of three choices, whatever the
  user types: \<open>p\<close> (go on with the configuration unchanged), \<open>switch\<close> (ask for
  another noise type) and \<open>v\<close> (change the view to a plot). There is no cancel: the
  choice is never \<open>c\<close>.
\<close>

theorem hypergraph_check_offers:
  assumes "visualization_type args = ''hypergraph''" "noise_type args \<in> set sq"
    "1 < num_qubits args"
    and ask: "get_input ''hypergraph_single_qubit_prompt'' ''p'' [''p'', ''switch'', ''v'']
            (print_message ''hypergraph_single_qubit_warning'' con) = Inr (choice, con1)"
  shows "(choice = ''p'' \<or> choice = ''switch'' \<or> choice = ''v'') \<and> choice \<noteq> ''c''
    \<and> check_hypergraph_single_qubit sq py_int collect args con =
        (if choice = ''switch'' then switch_noise_type args con1
         else if choice = ''v'' then
           switch_to_plot py_int collect args (print_message ''switched_to_plot'' con1)
         else Inr (args, con1))"
proof -
  have c: "choice = ''p'' \<or> choice = ''switch'' \<or> choice = ''v''"
    using ask by (rule choice_p_switch_v)
  then have "choice \<noteq> ''c''" by auto
  moreover have "check_hypergraph_single_qubit sq py_int collect args con =
        (if choice = ''switch'' then switch_noise_type args con1
         else if choice = ''v'' then
           switch_to_plot py_int collect args (print_message ''switched_to_plot'' con1)
         else Inr (args, con1))"
    unfolding check_hypergraph_single_qubit_def using assms by simp
  ultimately show ?thesis using c by blast
qed

theorem hypergraph_check_offers_witness:
  "check_hypergraph_single_qubit single_qubit_families int_decimal recollect
      (ghz_damping\<lparr>visualization_type := ''hypergraph''\<rparr>) (keyboard [Line ''Switch'', Line ''d'']) =
     switch_noise_type (ghz_damping\<lparr>visualization_type := ''hypergraph''\<rparr>)
       \<lparr>stdin = [Line ''d''],
        stdout = [Message ''hypergraph_single_qubit_warning'',
                  Prompt ''hypergraph_single_qubit_prompt'']\<rparr>"
proof -
  have t: "visualization_type (ghz_damping\<lparr>visualization_type := ''hypergraph''\<rparr>) = ''hypergraph''"
    "noise_type (ghz_damping\<lparr>visualization_type := ''hypergraph''\<rparr>) \<in> set single_qubit_families"
    "1 < num_qubits (ghz_damping\<lparr>visualization_type := ''hypergraph''\<rparr>)"
    by (simp_all add: ghz_damping_def single_qubit_families_def)
  have ask: "get_input ''hypergraph_single_qubit_prompt'' ''p'' [''p'', ''switch'', ''v'']
            (print_message ''hypergraph_single_qubit_warning'' (keyboard [Line ''Switch'', Line ''d'']))
          = Inr (''switch'', \<lparr>stdin = [Line ''d''],
        stdout = [Message ''hypergraph_single_qubit_warning'',
                  Prompt ''hypergraph_single_qubit_prompt'']\<rparr>)"
    by (simp add: run_eval)
  show ?thesis
    using hypergraph_check_offers [OF t ask, of int_decimal recollect] by simp
qed

text \<open>
  The claim as first stated fails: at check 2 the answer \<open>c\<close> is refused as invalid
  input and the prompt is repeated; the following \<open>p\<close> goes on with the configuration
  unchanged, and no restart takes place.
\<close>

theorem hypergraph_check_no_cancel_counterexample:
  "check_hypergraph_single_qubit single_qubit_families int_decimal recollect
      (ghz_damping\<lparr>visualization_type := ''hypergraph''\<rparr>) (keyboard [Line ''c'', Line ''p'']) =
     Inr (ghz_damping\<lparr>visualization_type := ''hypergraph''\<rparr>,
          \<lparr>stdin = [],
           stdout = [Message ''hypergraph_single_qubit_warning'',
                     Prompt ''hypergraph_single_qubit_prompt'', Message ''invalid_input'',
                     Prompt ''hypergraph_single_qubit_prompt'']\<rparr>)"
  by (simp add: check_hypergraph_single_qubit_def ghz_damping_def single_qubit_families_def
      run_eval)

text \<open>
  Claim C2, as amended. When the simulation mode is \<open>density\<close>, the noise type is
  single-qubit and noise is enabled, check 3 shows its warning and acts on one of three
  choices, whatever the user types: \<open>p\<close>, which disables noise (noise-enabled becomes
  false, the noise type is unchanged); \<open>switch\<close>, which asks for another noise type;
  and \<open>c\<close>, which cancels and returns a fresh parameter collection. There is no
  fourth choice.
\<close>

theorem density_check_offers:
  assumes "sim_mode args = ''density''" "noise_type args \<in> set sq" "noise_enabled args"
    and ask: "get_input ''density_noise_prompt'' ''p'' [''p'', ''switch'', ''c'']
            (print_message ''density_noise_warning'' con) = Inr (choice, con1)"
  shows "(choice = ''p'' \<or> choice = ''switch'' \<or> choice = ''c'')
    \<and> check_density_noise sq collect args con =
        (if choice = ''switch'' then
           (case switch_noise_type args con1 of
              Inl e \<Rightarrow> Inl e
            | Inr (args1, con2) \<Rightarrow> Inr (Continue args1, con2))
         else if choice = ''p'' then
           Inr (Continue (args\<lparr>noise_enabled := False\<rparr>), print_message ''noise_disabled'' con1)
         else
           (case collect (print_message ''config_cancelled'' con1) of
              Inl e \<Rightarrow> Inl e
            | Inr (d, con2) \<Rightarrow> Inr (Restart d, con2)))
    \<and> \<not> noise_enabled (args\<lparr>noise_enabled := False\<rparr>)
    \<and> noise_type (args\<lparr>noise_enabled := False\<rparr>) = noise_type args"
proof -
  have c: "choice = ''p'' \<or> choice = ''switch'' \<or> choice = ''c''"
    using ask by (rule choice_p_switch_c)
  have "check_density_noise sq collect args con =
        (if choice = ''switch'' then
           (case switch_noise_type args con1 of
              Inl e \<Rightarrow> Inl e
            | Inr (args1, con2) \<Rightarrow> Inr (Continue args1, con2))
         else if choice = ''p'' then
           Inr (Continue (args\<lparr>noise_enabled := False\<rparr>), print_message ''noise_disabled'' con1)
         else
           (case collect (print_message ''config_cancelled'' con1) of
              Inl e \<Rightarrow> Inl e
            | Inr (d, con2) \<Rightarrow> Inr (Restart d, con2)))"
    unfolding check_density_noise_def using assms c by auto
  with c show ?thesis by simp
qed

theorem density_check_offers_witness:
  "check_density_noise single_qubit_families recollect
      (ghz_damping\<lparr>noise_type := ''PHASE_FLIP'', sim_mode := ''density''\<rparr>) (keyboard [Line ''p'']) =
     Inr (Continue (ghz_damping\<lparr>noise_type := ''PHASE_FLIP'', sim_mode := ''density'',
                                 noise_enabled := False\<rparr>),
          \<lparr>stdin = [],
           stdout = [Message ''density_noise_warning'', Prompt ''density_noise_prompt'',
                     Message ''noise_disabled'']\<rparr>)
   \<and> noise_type (ghz_damping\<lparr>noise_type := ''PHASE_FLIP'', sim_mode := ''density'',
                               noise_enabled := False\<rparr>) = ''PHASE_FLIP''"
proof -
  have t: "sim_mode (ghz_damping\<lparr>noise_type := ''PHASE_FLIP'', sim_mode := ''density''\<rparr>) = ''density''"
    "noise_type (ghz_damping\<lparr>noise_type := ''PHASE_FLIP'', sim_mode := ''density''\<rparr>)
       \<in> set single_qubit_families"
    "noise_enabled (ghz_damping\<lparr>noise_type := ''PHASE_FLIP'', sim_mode := ''density''\<rparr>)"
    by (simp_all add: ghz_damping_def single_qubit_families_def)
  have ask: "get_input ''density_noise_prompt'' ''p'' [''p'', ''switch'', ''c'']
            (print_message ''density_noise_warning'' (keyboard [Line ''p'']))
          = Inr (''p'', \<lparr>stdin = [],
               stdout = [Message ''density_noise_warning'', Prompt ''density_noise_prompt'']\<rparr>)"
    by (simp add: run_eval)
  show ?thesis
    using density_check_offers [OF t ask, of recollect] by (simp add: print_message_def)
qed

text \<open>
  The claim as first stated fails: check 3 offers three resolutions, not four. On the
  amplitude-damping configuration below the answer \<open>p\<close>, which proceeds unchanged in
  check 1, disables noise, and no input whatever makes check 3 hand that configuration
  on unchanged.
\<close>

lemma density_check_continue:
  assumes "sim_mode args = ''density''" "noise_type args \<in> set sq" "noise_enabled args"
    and run: "check_density_noise sq collect args con = Inr (Continue a, con')"
  shows "a = args\<lparr>noise_enabled := False\<rparr> \<or> a = args\<lparr>noise_type := ''DEPOLARIZING''\<rparr>
       \<or> a = args\<lparr>noise_type := ''PHASE_FLIP''\<rparr> \<or> a = args\<lparr>noise_type := ''THERMAL_RELAXATION''\<rparr>"
proof (cases "get_input ''density_noise_prompt'' ''p'' [''p'', ''switch'', ''c'']
            (print_message ''density_noise_warning'' con)")
  case (Inl e)
  with assms show ?thesis unfolding check_density_noise_def by simp
next
  case (Inr r)
  obtain choice con1 where r: "r = (choice, con1)" by (cases r)
  have c: "choice = ''p'' \<or> choice = ''switch'' \<or> choice = ''c''"
    using Inr r choice_p_switch_c by blast
  have eq: "check_density_noise sq collect args con =
        (if choice = ''switch'' then
           (case switch_noise_type args con1 of
              Inl e \<Rightarrow> Inl e
            | Inr (args1, con2) \<Rightarrow> Inr (Continue args1, con2))
         else if choice = ''p'' then
           Inr (Continue (args\<lparr>noise_enabled := False\<rparr>), print_message ''noise_disabled'' con1)
         else
           (case collect (print_message ''config_cancelled'' con1) of
              Inl e \<Rightarrow> Inl e
            | Inr (d, con2) \<Rightarrow> Inr (Restart d, con2)))"
    unfolding check_density_noise_def using assms(1-3) Inr r c by auto
  from c show ?thesis
  proof (elim disjE)
    assume "choice = ''p''"
    with eq run show ?thesis by simp
  next
    assume sw: "choice = ''switch''"
    with eq run obtain a1 c2 where "switch_noise_type args con1 = Inr (a1, c2)" "a = a1"
      by (auto split: sum.splits prod.splits)
    then show ?thesis using switch_noise_type_result by blast
  next
    assume "choice = ''c''"
    with eq run show ?thesis by (auto split: sum.splits prod.splits)
  qed
qed

theorem density_check_no_proceed_counterexample:
  "check_density_noise single_qubit_families recollect
      (ghz_damping\<lparr>sim_mode := ''density''\<rparr>) (keyboard [Line ''p'']) =
     Inr (Continue (ghz_damping\<lparr>sim_mode := ''density'', noise_enabled := False\<rparr>),
          \<lparr>stdin = [],
           stdout = [Message ''density_noise_warning'', Prompt ''density_noise_prompt'',
                     Message ''noise_disabled'']\<rparr>)
   \<and> \<not> (\<exists>con con'. check_density_noise single_qubit_families recollect
                      (ghz_damping\<lparr>sim_mode := ''density''\<rparr>) con =
                    Inr (Continue (ghz_damping\<lparr>sim_mode := ''density''\<rparr>), con'))"
proof
  show "check_density_noise single_qubit_families recollect
      (ghz_damping\<lparr>sim_mode := ''density''\<rparr>) (keyboard [Line ''p'']) =
     Inr (Continue (ghz_damping\<lparr>sim_mode := ''density'', noise_enabled := False\<rparr>),
          \<lparr>stdin = [],
           stdout = [Message ''density_noise_warning'', Prompt ''density_noise_prompt'',
                     Message ''noise_disabled'']\<rparr>)"
    by (simp add: check_density_noise_def ghz_damping_def single_qubit_families_def run_eval)
next
  have t: "sim_mode (ghz_damping\<lparr>sim_mode := ''density''\<rparr>) = ''density''"
    "noise_type (ghz_damping\<lparr>sim_mode := ''density''\<rparr>) \<in> set single_qubit_families"
    "noise_enabled (ghz_damping\<lparr>sim_mode := ''density''\<rparr>)"
    by (simp_all add: ghz_damping_def single_qubit_families_def)
  show "\<not> (\<exists>con con'. check_density_noise single_qubit_families recollect
                      (ghz_damping\<lparr>sim_mode := ''density''\<rparr>) con =
                    Inr (Continue (ghz_damping\<lparr>sim_mode := ''density''\<rparr>), con'))"
  proof
    assume "\<exists>con con'. check_density_noise single_qubit_families recollect
                      (ghz_damping\<lparr>sim_mode := ''density''\<rparr>) con =
                    Inr (Continue (ghz_damping\<lparr>sim_mode := ''density''\<rparr>), con')"
    then obtain con con' where "check_density_noise single_qubit_families recollect
                      (ghz_damping\<lparr>sim_mode := ''density''\<rparr>) con =
                    Inr (Continue (ghz_damping\<lparr>sim_mode := ''density''\<rparr>), con')"
      by blast
    from density_check_continue [OF t this] show False
      by (auto simp: ghz_damping_def dest: arg_cong [where f = noise_enabled]
          arg_cong [where f = noise_type])
  qed
qed

text \<open>
  Claim C3, as amended. On a configuration that triggers none of the four checks and
  whose view is not a plot, \<open>validate_and_prompt\<close> returns the configuration
  unchanged, reads no input and shows nothing. When the view is a plot, the only thing
  it does is to collect the plot settings again (\<open>switch_to_plot\<close>).
\<close>

theorem conflict_free_unchanged:
  assumes "\<not> (noise_type args \<in> set sq \<and> 1 < num_qubits args)"
    and "\<not> (sim_mode args = ''density'' \<and> noise_type args \<in> set sq \<and> noise_enabled args)"
    and "\<not> (visualization_type args = ''hypergraph'' \<and> sim_mode args = ''density''
            \<and> \<not> noise_enabled args)"
  shows "(visualization_type args \<noteq> ''plot'' \<longrightarrow>
           validate_and_prompt sq py_int collect args con = Inr (Continue args, con))
    \<and> (visualization_type args = ''plot'' \<longrightarrow>
           validate_and_prompt sq py_int collect args con =
             (case switch_to_plot py_int collect args con of
                Inl e \<Rightarrow> Inl e
              | Inr (args1, con1) \<Rightarrow> Inr (Continue args1, con1)))"
proof (intro conjI impI)
  assume "visualization_type args \<noteq> ''plot''"
  with assms show "validate_and_prompt sq py_int collect args con = Inr (Continue args, con)"
    unfolding validate_and_prompt_def check_single_qubit_noise_def
      check_hypergraph_single_qubit_def plot_settings_def check_density_noise_def
      check_hypergraph_density_no_noise_def
    by auto
next
  assume plot: "visualization_type args = ''plot''"
  have c1: "check_single_qubit_noise sq collect args con = Inr (Continue args, con)"
    using assms(1) unfolding check_single_qubit_noise_def by auto
  have c2: "check_hypergraph_single_qubit sq py_int collect args con = Inr (args, con)"
    using plot unfolding check_hypergraph_single_qubit_def by simp
  have c3: "plot_settings py_int collect args con = switch_to_plot py_int collect args con"
    using plot unfolding plot_settings_def by simp
  show "validate_and_prompt sq py_int collect args con =
             (case switch_to_plot py_int collect args con of
                Inl e \<Rightarrow> Inl e
              | Inr (args1, con1) \<Rightarrow> Inr (Continue args1, con1))"
  proof (cases "switch_to_plot py_int collect args con")
    case (Inl e)
    then show ?thesis by (simp add: validate_and_prompt_def c1 c2 c3)
  next
    case (Inr r)
    obtain a3 con3 where r: "r = (a3, con3)" by (cases r)
    have keep: "sim_mode a3 = sim_mode args" "noise_type a3 = noise_type args"
      "noise_enabled a3 = noise_enabled args" "visualization_type a3 = ''plot''"
      using Inr r unfolding switch_to_plot_def
      by (auto simp: Let_def split: if_splits sum.splits prod.splits)
    have c4: "check_density_noise sq collect a3 con3 = Inr (Continue a3, con3)"
      using assms(2) keep unfolding check_density_noise_def by auto
    have c5: "check_hypergraph_density_no_noise py_int collect a3 con3 = Inr (a3, con3)"
      using keep unfolding check_hypergraph_density_no_noise_def by simp
    show ?thesis by (simp add: validate_and_prompt_def c1 c2 c3 Inr r c4 c5)
  qed
qed

theorem conflict_free_unchanged_witness:
  "validate_and_prompt single_qubit_families int_decimal recollect
      (ghz_damping\<lparr>noise_type := ''DEPOLARIZING'', visualization_type := ''hypergraph''\<rparr>)
      (keyboard [Line ''anything'']) =
     Inr (Continue (ghz_damping\<lparr>noise_type := ''DEPOLARIZING'', visualization_type := ''hypergraph''\<rparr>),
          keyboard [Line ''anything''])"
proof -
  let ?a = "ghz_damping\<lparr>noise_type := ''DEPOLARIZING'', visualization_type := ''hypergraph''\<rparr>"
  have h: "\<not> (noise_type ?a \<in> set single_qubit_families \<and> 1 < num_qubits ?a)"
    "\<not> (sim_mode ?a = ''density'' \<and> noise_type ?a \<in> set single_qubit_families \<and> noise_enabled ?a)"
    "\<not> (visualization_type ?a = ''hypergraph'' \<and> sim_mode ?a = ''density'' \<and> \<not> noise_enabled ?a)"
    by (simp_all add: ghz_damping_def single_qubit_families_def)
  have v: "visualization_type ?a \<noteq> ''plot''" by (simp add: ghz_damping_def)
  show ?thesis
    using conflict_free_unchanged [OF h, of int_decimal recollect "keyboard [Line ''anything'']"] v
    by blast
qed

text \<open>
  The claim as first stated fails: a configuration with \<open>DEPOLARIZING\<close> noise (not a
  single-qubit family) and a plot view triggers no check, yet the resolver asks for the
  plot settings, and the answer \<open>r\<close> changes \<open>show_real\<close>.
\<close>

theorem conflict_free_plot_counterexample:
  "\<not> (noise_type (ghz_damping\<lparr>noise_type := ''DEPOLARIZING'', sim_mode := ''density'',
                                visualization_type := ''plot''\<rparr>) \<in> set single_qubit_families)
   \<and> visualization_type (ghz_damping\<lparr>noise_type := ''DEPOLARIZING'', sim_mode := ''density'',
                                        visualization_type := ''plot''\<rparr>) \<noteq> ''hypergraph''
   \<and> validate_and_prompt single_qubit_families int_decimal recollect
        (ghz_damping\<lparr>noise_type := ''DEPOLARIZING'', sim_mode := ''density'',
                      visualization_type := ''plot''\<rparr>) (keyboard [Line ''r'']) =
      Inr (Continue (ghz_damping\<lparr>noise_type := ''DEPOLARIZING'', sim_mode := ''density'',
                                  visualization_type := ''plot'', show_real := True\<rparr>),
           \<lparr>stdin = [], stdout = [Prompt ''real_imag_prompt'']\<rparr>)
   \<and> ghz_damping\<lparr>noise_type := ''DEPOLARIZING'', sim_mode := ''density'',
                   visualization_type := ''plot'', show_real := True\<rparr>
      \<noteq> ghz_damping\<lparr>noise_type := ''DEPOLARIZING'', sim_mode := ''density'',
                      visualization_type := ''plot''\<rparr>"
  by (simp add: validate_and_prompt_def check_single_qubit_noise_def
      check_hypergraph_single_qubit_def plot_settings_def check_density_noise_def
      check_hypergraph_density_no_noise_def switch_to_plot_def
      ghz_damping_def single_qubit_families_def run_eval)




end
